theory Spec2Isabelle
  imports Complex_Main "HOL-Library.Log_Nat" "HOL-Library.Sublist"
begin

section \<open>Python values of main.py\<close>

subsection \<open>Exceptions\<close>

text \<open>
  Every exception main.py can raise is a value of \<open>error\<close>; a function that can raise
  returns \<open>error + 'a\<close> with \<open>Inl\<close> for the raise. A \<open>ValueError\<close> carries its message,
  since \<open>calculate_centroid\<close> raises it with two different messages and the built-in
  \<open>min\<close> with a third.
\<close>

datatype error =
    ValueError string
  | TypeError
  | KeyError string
  | IndexError
  | AttributeError
  | OverflowError
  | ZeroDivisionError
  | FileNotFoundError string

definition bind_err :: "error + 'a \<Rightarrow> ('a \<Rightarrow> error + 'b) \<Rightarrow> error + 'b" where
  "bind_err r f = (case r of Inl e \<Rightarrow> Inl e | Inr x \<Rightarrow> f x)"

subsection \<open>Floats\<close>

text \<open>
  A Python float is an IEEE 754 binary64 value: a finite value is carried as the rational
  it denotes, next to the two infinities and NaN. The two signed zeros are one value
  (Python's \<open>==\<close> does not tell them apart). Every arithmetic operation computes the exact
  rational result and rounds it to the nearest binary64 value, ties to even
  (\<open>round_double\<close>): 53 bits of precision, the smallest exponent \<open>-1074\<close> (subnormals),
  and overflow to an infinity from \<open>2 ^ 1024\<close> on.
\<close>

datatype double = Finite rat | PosInf | NegInf | NaN

definition pow2 :: "int \<Rightarrow> rat" where
  "pow2 e = (if 0 \<le> e then 2 ^ nat e else 1 / 2 ^ nat (- e))"

definition round_half_even :: "rat \<Rightarrow> int" where
  "round_half_even x =
     (let f = \<lfloor>x\<rfloor>; d = x - of_int f
      in if d < 1 / 2 then f
         else if 1 / 2 < d then f + 1
         else if even f then f else f + 1)"

text \<open>For \<open>0 < q\<close>, \<open>binade q\<close> is the \<open>k\<close> with \<open>2 ^ (k - 1) \<le> q < 2 ^ k\<close>.\<close>

definition binade :: "rat \<Rightarrow> int" where
  "binade q =
     (if 1 \<le> q then bitlen \<lfloor>q\<rfloor>
      else (let j = bitlen \<lfloor>1 / q\<rfloor>
            in if q < pow2 (1 - j) then 1 - j else 2 - j))"

definition round_double :: "rat \<Rightarrow> double" where
  "round_double q =
     (if q = 0 then Finite 0
      else (let e = max (binade \<bar>q\<bar> - 53) (- 1074);
                r = of_int (round_half_even (q / pow2 e)) * pow2 e
            in if 2 ^ 1024 \<le> r then PosInf
               else if r \<le> - (2 ^ 1024) then NegInf
               else Finite r))"


fun fneg :: "double \<Rightarrow> double" where
  "fneg (Finite a) = Finite (- a)"
| "fneg PosInf = NegInf"
| "fneg NegInf = PosInf"
| "fneg NaN = NaN"

fun fadd :: "double \<Rightarrow> double \<Rightarrow> double" where
  "fadd (Finite a) (Finite b) = round_double (a + b)"
| "fadd NaN y = NaN"
| "fadd x NaN = NaN"
| "fadd PosInf NegInf = NaN"
| "fadd NegInf PosInf = NaN"
| "fadd PosInf y = PosInf"
| "fadd NegInf y = NegInf"
| "fadd (Finite a) y = y"

fun fmul :: "double \<Rightarrow> double \<Rightarrow> double" where
  "fmul (Finite a) (Finite b) = round_double (a * b)"
| "fmul NaN y = NaN"
| "fmul x NaN = NaN"
| "fmul (Finite a) y = (if a = 0 then NaN else if 0 < a then y else fneg y)"
| "fmul x (Finite b) = (if b = 0 then NaN else if 0 < b then x else fneg x)"
| "fmul x y = (if x = y then PosInf else NegInf)"

text \<open>
  Python's \<open>/\<close> on floats raises ZeroDivisionError on a zero divisor; elsewhere it is the
  IEEE division.
\<close>

fun fdiv :: "double \<Rightarrow> double \<Rightarrow> error + double" where
  "fdiv x (Finite b) =
     (if b = 0 then Inl ZeroDivisionError
      else (case x of
              Finite a \<Rightarrow> Inr (round_double (a / b))
            | NaN \<Rightarrow> Inr NaN
            | _ \<Rightarrow> Inr (if 0 < b then x else fneg x)))"
| "fdiv x NaN = Inr NaN"
| "fdiv (Finite a) y = Inr (Finite 0)"
| "fdiv x y = Inr NaN"

text \<open>
  \<open>float(n)\<close> of an int, also where an int meets a float in arithmetic: correctly rounded,
  OverflowError when the int is too large for a float.
\<close>

definition float_of_int :: "int \<Rightarrow> error + double" where
  "float_of_int n =
     (case round_double (of_int n) of
        Finite r \<Rightarrow> Inr (Finite r)
      | _ \<Rightarrow> Inl OverflowError)"

text \<open>
  \<open>int(x)\<close> of a float truncates towards zero; it raises OverflowError on an infinity and
  ValueError on NaN.
\<close>

fun int_of_float :: "double \<Rightarrow> error + int" where
  "int_of_float (Finite a) = Inr (if 0 \<le> a then \<lfloor>a\<rfloor> else \<lceil>a\<rceil>)"
| "int_of_float NaN = Inl (ValueError ''cannot convert float NaN to integer'')"
| "int_of_float x = Inl OverflowError"

section \<open>Time Normalizer\<close>

text \<open>
  A naive \<open>datetime\<close>, reduced to what \<open>date_str_to_timestamp\<close> reads of it:
  \<open>epoch_seconds\<close> is the whole number of seconds since the epoch that
  \<open>datetime.timestamp()\<close> derives from the calendar fields in the local time zone, and
  \<open>microsecond\<close> is the field of that name, from 0 to 999999.
\<close>

record datetime =
  epoch_seconds :: int
  microsecond :: int

text \<open>
  \<open>dt.timestamp()\<close> of a naive datetime is the float sum of the whole seconds and
  \<open>microsecond / 1e6\<close>.
\<close>

definition timestamp :: "datetime \<Rightarrow> error + double" where
  "timestamp dt =
     bind_err (float_of_int (epoch_seconds dt)) (\<lambda>s.
     bind_err (float_of_int (microsecond dt)) (\<lambda>us.
     bind_err (fdiv us (Finite 1000000)) (\<lambda>frac.
     Inr (fadd s frac))))"

definition date_str_to_timestamp :: "datetime \<Rightarrow> error + int" where
  "date_str_to_timestamp dt =
     bind_err (timestamp dt) (\<lambda>timestamp_seconds.
       let microseconds = microsecond dt;
           nanoseconds = microseconds * 1000
       in bind_err (int_of_float (fmul timestamp_seconds (Finite 1000000000))) (\<lambda>whole.
            Inr (whole + nanoseconds)))"

section \<open>Position samples, dicts and JSON values\<close>

text \<open>
  A position sample is the tuple \<open>(timestamp, latitude, longitude)\<close> that
  \<open>parse_pos_file\<close> appends: an int (Python ints are unbounded) and two floats.
\<close>

type_synonym sample = "int \<times> double \<times> double"

text \<open>
  The values a JSON document holds, and the dicts main.py builds. A dict written as a
  literal is the list of its items in the order written, which is the order
  \<open>json.dump\<close> emits them in; its keys are distinct.
\<close>

datatype pyval =
    PyNone
  | PyBool bool
  | PyInt int
  | PyFloat double
  | PyStr string
  | PyList "pyval list"
  | PyDict "(string \<times> pyval) list"

type_synonym dict = "(string \<times> pyval) list"

text \<open>\<open>d[k]\<close>, \<open>k in d\<close> and \<open>d.get(k, default)\<close>.\<close>

definition getitem :: "dict \<Rightarrow> string \<Rightarrow> error + pyval" where
  "getitem d k = (case map_of d k of None \<Rightarrow> Inl (KeyError k) | Some v \<Rightarrow> Inr v)"

definition has_key :: "dict \<Rightarrow> string \<Rightarrow> bool" where
  "has_key d k = (map_of d k \<noteq> None)"

definition get_default :: "(string \<rightharpoonup> pyval) \<Rightarrow> string \<Rightarrow> pyval \<Rightarrow> pyval" where
  "get_default d k dflt = (case d k of None \<Rightarrow> dflt | Some v \<Rightarrow> v)"

text \<open>A list comprehension whose element expression can raise stops at the first raise.\<close>

fun map_err :: "('a \<Rightarrow> error + 'b) \<Rightarrow> 'a list \<Rightarrow> error + 'b list" where
  "map_err f [] = Inr []"
| "map_err f (x # xs) =
     (case f x of
        Inl e \<Rightarrow> Inl e
      | Inr y \<Rightarrow> (case map_err f xs of Inl e \<Rightarrow> Inl e | Inr ys \<Rightarrow> Inr (y # ys)))"

subsection \<open>Arithmetic on values\<close>

text \<open>
  \<open>+\<close> and \<open>/\<close> as \<open>sum(...) / len(...)\<close> uses them: a bool counts as the int 0 or 1,
  an int that meets a float is converted to a float first, \<open>/\<close> on two ints is the
  correctly rounded quotient, and any other operand raises TypeError.
\<close>

fun as_number :: "pyval \<Rightarrow> (int + double) option" where
  "as_number (PyBool b) = Some (Inl (if b then 1 else 0))"
| "as_number (PyInt i) = Some (Inl i)"
| "as_number (PyFloat x) = Some (Inr x)"
| "as_number v = None"

definition py_add :: "pyval \<Rightarrow> pyval \<Rightarrow> error + pyval" where
  "py_add v w =
     (case (as_number v, as_number w) of
        (Some (Inl a), Some (Inl b)) \<Rightarrow> Inr (PyInt (a + b))
      | (Some (Inl a), Some (Inr y)) \<Rightarrow> bind_err (float_of_int a) (\<lambda>x. Inr (PyFloat (fadd x y)))
      | (Some (Inr x), Some (Inl b)) \<Rightarrow> bind_err (float_of_int b) (\<lambda>y. Inr (PyFloat (fadd x y)))
      | (Some (Inr x), Some (Inr y)) \<Rightarrow> Inr (PyFloat (fadd x y))
      | _ \<Rightarrow> Inl TypeError)"

definition py_truediv :: "pyval \<Rightarrow> pyval \<Rightarrow> error + double" where
  "py_truediv v w =
     (case (as_number v, as_number w) of
        (Some (Inl a), Some (Inl b)) \<Rightarrow>
          (if b = 0 then Inl ZeroDivisionError
           else (case round_double (of_int a / of_int b) of
                   Finite r \<Rightarrow> Inr (Finite r)
                 | _ \<Rightarrow> Inl OverflowError))
      | (Some (Inl a), Some (Inr y)) \<Rightarrow> bind_err (float_of_int a) (\<lambda>x. fdiv x y)
      | (Some (Inr x), Some (Inl b)) \<Rightarrow> bind_err (float_of_int b) (\<lambda>y. fdiv x y)
      | (Some (Inr x), Some (Inr y)) \<Rightarrow> fdiv x y
      | _ \<Rightarrow> Inl TypeError)"

text \<open>
  The built-in \<open>sum\<close>: it starts from the int 0 and adds the items from left to right
  (CPython up to 3.11, the version modelled here; from 3.12 on it carries a compensation
  term for floats).
\<close>

fun sum_from :: "pyval \<Rightarrow> pyval list \<Rightarrow> error + pyval" where
  "sum_from acc [] = Inr acc"
| "sum_from acc (x # xs) =
     (case py_add acc x of Inl e \<Rightarrow> Inl e | Inr acc' \<Rightarrow> sum_from acc' xs)"

definition py_sum :: "pyval list \<Rightarrow> error + pyval" where
  "py_sum xs = sum_from (PyInt 0) xs"

section \<open>Timestamp Associator\<close>

text \<open>
  The built-in \<open>min(xs, key=...)\<close>: it keeps the first item and replaces it only by an
  item whose key is strictly smaller; on an empty sequence it raises ValueError.
\<close>

fun min_from :: "('a \<Rightarrow> int) \<Rightarrow> 'a \<Rightarrow> 'a list \<Rightarrow> 'a" where
  "min_from key best [] = best"
| "min_from key best (x # xs) =
     (if key x < key best then min_from key x xs else min_from key best xs)"

definition py_min :: "'a list \<Rightarrow> ('a \<Rightarrow> int) \<Rightarrow> error + 'a" where
  "py_min xs key =
     (case xs of
        [] \<Rightarrow> Inl (ValueError ''min() arg is an empty sequence'')
      | x # rest \<Rightarrow> Inr (min_from key x rest))"

text \<open>
  \<open>pos_data\<close> is what \<open>parse_pos_file\<close> returned: a list of samples, or None (when the
  file could not be read), on which \<open>min\<close> raises TypeError. The target timestamp is an
  int, as the frame manifest's timestamps are.
\<close>

definition find_closest_timestamp ::
    "sample list option \<Rightarrow> int \<Rightarrow> error + (double \<times> double)" where
  "find_closest_timestamp pos_data target_timestamp =
     (case pos_data of
        None \<Rightarrow> Inl TypeError
      | Some track \<Rightarrow>
          (case py_min track (\<lambda>x. \<bar>fst x - target_timestamp\<bar>) of
             Inl e \<Rightarrow> Inl e
           | Inr closest \<Rightarrow> Inr (fst (snd closest), snd (snd closest))))"

text \<open>
  The frame manifest as \<open>parse_json_file\<close> returns it: the \<open>timestamps\<close> list of
  \<open>[index, timestamp]\<close> pairs of ints (None when the document has no such key) and the
  document's other fields (\<open>doc_fields\<close>). \<open>parse_json_file\<close> itself returns None when
  the file cannot be read or parsed, so the functions below take a \<open>manifest option\<close>.
\<close>

record manifest =
  timestamps :: "(int \<times> int) list option"
  doc_fields :: "string \<rightharpoonup> pyval"

definition association :: "int \<Rightarrow> int \<Rightarrow> double \<Rightarrow> double \<Rightarrow> dict" where
  "association frame_index frame_timestamp latitude longitude =
     [(''index'', PyInt frame_index),
      (''timestamp'', PyInt frame_timestamp),
      (''latitude'', PyFloat latitude),
      (''longitude'', PyFloat longitude)]"

fun associate_loop ::
    "sample list option \<Rightarrow> dict list \<Rightarrow> (int \<times> int) list \<Rightarrow> error + dict list" where
  "associate_loop pos_data associations [] = Inr associations"
| "associate_loop pos_data associations (frame # frames) =
     (let frame_index = fst frame; frame_timestamp = snd frame
      in case find_closest_timestamp pos_data frame_timestamp of
           Inl e \<Rightarrow> Inl e
         | Inr (latitude, longitude) \<Rightarrow>
             associate_loop pos_data
               (associations @ [association frame_index frame_timestamp latitude longitude])
               frames)"

definition associate_timestamps_with_gps ::
    "manifest option \<Rightarrow> sample list option \<Rightarrow> error + dict list" where
  "associate_timestamps_with_gps json_data pos_data =
     (case json_data of
        None \<Rightarrow> Inl TypeError
      | Some m \<Rightarrow>
          (case timestamps m of
             None \<Rightarrow> Inl (KeyError ''timestamps'')
           | Some frames \<Rightarrow> associate_loop pos_data [] frames))"

section \<open>Centroid Calculator\<close>

definition calculate_centroid :: "dict list \<Rightarrow> error + (double \<times> double)" where
  "calculate_centroid locations =
     (if locations = [] then Inl (ValueError ''The list of locations is empty'')
      else if \<not> list_all (\<lambda>loc. has_key loc ''latitude'' \<and> has_key loc ''longitude'') locations
      then Inl (ValueError ''Each location must have 'latitude' and 'longitude' keys'')
      else
        bind_err (map_err (\<lambda>loc. getitem loc ''latitude'') locations) (\<lambda>latitudes.
        bind_err (map_err (\<lambda>loc. getitem loc ''longitude'') locations) (\<lambda>longitudes.
        if latitudes = [] \<or> longitudes = []
        then Inl (ValueError ''Latitude and longitude lists cannot be empty'')
        else
          bind_err (bind_err (py_sum latitudes) (\<lambda>total.
                      py_truediv total (PyInt (int (length latitudes))))) (\<lambda>centroid_lat.
          bind_err (bind_err (py_sum longitudes) (\<lambda>total.
                      py_truediv total (PyInt (int (length longitudes))))) (\<lambda>centroid_lon.
          Inr (centroid_lat, centroid_lon))))))"

section \<open>GeoJSON Assembler\<close>

definition feature :: "dict \<Rightarrow> error + pyval" where
  "feature assoc =
     bind_err (getitem assoc ''longitude'') (\<lambda>lon.
     bind_err (getitem assoc ''latitude'') (\<lambda>lat.
     bind_err (getitem assoc ''index'') (\<lambda>idx.
     bind_err (getitem assoc ''timestamp'') (\<lambda>ts.
     Inr (PyDict
       [(''type'', PyStr ''Feature''),
        (''geometry'', PyDict
           [(''type'', PyStr ''Point''),
            (''coordinates'', PyList [lon, lat])]),
        (''properties'', PyDict
           [(''index'', idx),
            (''timestamp'', ts)])])))))"

text \<open>\<open>json_data.get\<close> on None (a manifest that failed to parse) raises AttributeError.\<close>

definition generate_geojson_output ::
    "manifest option \<Rightarrow> dict list \<Rightarrow> double \<times> double \<Rightarrow> error + pyval" where
  "generate_geojson_output json_data associations centroid =
     bind_err (map_err feature associations) (\<lambda>features.
       case json_data of
         None \<Rightarrow> Inl AttributeError
       | Some m \<Rightarrow>
           Inr (PyDict
             [(''type'', PyStr ''FeatureCollection''),
              (''filename'', get_default (doc_fields m) ''filename'' (PyStr [])),
              (''device_alias'', get_default (doc_fields m) ''device_alias'' (PyStr [])),
              (''total'', get_default (doc_fields m) ''total'' (PyInt 0)),
              (''beginning'', get_default (doc_fields m) ''beginning'' (PyStr [])),
              (''end'', get_default (doc_fields m) ''end'' (PyStr [])),
              (''centroid'', PyDict
                 [(''lat'', PyFloat (fst centroid)),
                  (''lon'', PyFloat (snd centroid))]),
              (''features'', PyList features)]))"



section \<open>Position Track Parser\<close>

text \<open>
  What main.py takes from outside: the directory listing, the lines of a text file (None
  when opening or reading it raises IOError), the manifest that \<open>open\<close> and
  \<open>json.load\<close> give for a path (None when either raises), \<open>datetime.strptime\<close> with
  the format \<open>%Y/%m/%d %H:%M:%S.%f\<close>, and \<open>float\<close> on a string.
\<close>

record world =
  listdir :: "string \<Rightarrow> error + string list"
  readlines :: "string \<Rightarrow> string list option"
  json_load :: "string \<Rightarrow> manifest option"
  strptime :: "string \<Rightarrow> error + datetime"
  float_of_str :: "string \<Rightarrow> error + double"


text \<open>
  A string is the list of its code points, here below 256; \<open>str.isspace\<close> holds of
  these twelve.
\<close>

definition py_isspace :: "char \<Rightarrow> bool" where
  "py_isspace c =
     (let n = (of_char c :: nat)
      in (9 \<le> n \<and> n \<le> 13) \<or> (28 \<le> n \<and> n \<le> 32) \<or> n = 133 \<or> n = 160)"

definition py_strip :: "string \<Rightarrow> string" where
  "py_strip s = rev (dropWhile py_isspace (rev (dropWhile py_isspace s)))"

text \<open>\<open>s.split()\<close>: the maximal runs of characters that are not whitespace.\<close>

fun split_from :: "string \<Rightarrow> string \<Rightarrow> string list" where
  "split_from word [] = (if word = [] then [] else [word])"
| "split_from word (c # cs) =
     (if py_isspace c
      then (if word = [] then split_from [] cs else word # split_from [] cs)
      else split_from (word @ [c]) cs)"

definition py_split :: "string \<Rightarrow> string list" where
  "py_split s = split_from [] s"

definition index_list :: "'a list \<Rightarrow> nat \<Rightarrow> error + 'a" where
  "index_list xs i = (if i < length xs then Inr (xs ! i) else Inl IndexError)"

text \<open>
  \<open>next((i + 1 for i, line in enumerate(lines) if line.startswith('%  GPST')), None)\<close>
\<close>

fun data_start_index :: "string list \<Rightarrow> nat option" where
  "data_start_index [] = None"
| "data_start_index (line # lines) =
     (if prefix ''%  GPST'' line then Some 1
      else map_option Suc (data_start_index lines))"

text \<open>The body of the loop of \<open>parse_pos_file\<close> for a line that is not skipped.\<close>

definition parse_line :: "world \<Rightarrow> string \<Rightarrow> error + sample" where
  "parse_line w line =
     (let parts = py_split line
      in bind_err (index_list parts 0) (\<lambda>p0.
         bind_err (index_list parts 1) (\<lambda>p1.
         bind_err (strptime w (p0 @ '' '' @ p1)) (\<lambda>dt.
         bind_err (date_str_to_timestamp dt) (\<lambda>ts.
         bind_err (bind_err (index_list parts 2) (float_of_str w)) (\<lambda>latitude.
         bind_err (bind_err (index_list parts 3) (float_of_str w)) (\<lambda>longitude.
         Inr (ts, latitude, longitude))))))))"

definition skipped :: "string \<Rightarrow> bool" where
  "skipped line = (prefix ''%'' line \<or> py_strip line = [])"

fun pos_loop :: "world \<Rightarrow> sample list \<Rightarrow> string list \<Rightarrow> error + sample list" where
  "pos_loop w pos_data [] = Inr pos_data"
| "pos_loop w pos_data (line # lines) =
     (if skipped line then pos_loop w pos_data lines
      else (case parse_line w line of
              Inl e \<Rightarrow> Inl e
            | Inr s \<Rightarrow> pos_loop w (pos_data @ [s]) lines))"

definition parse_pos_file :: "world \<Rightarrow> string \<Rightarrow> error + sample list option" where
  "parse_pos_file w file_path =
     (case readlines w file_path of
        None \<Rightarrow> Inr None
      | Some lines \<Rightarrow>
          (case data_start_index lines of
             None \<Rightarrow> Inr (Some [])
           | Some i \<Rightarrow>
               (case pos_loop w [] (drop i lines) of
                  Inl e \<Rightarrow> Inl e
                | Inr pos_data \<Rightarrow> Inr (Some pos_data))))"

section \<open>Session Orchestrator\<close>







section \<open>The arithmetic mean of floats\<close>

text \<open>
  What the spec calls the arithmetic mean of float64 values, stated on its own: their float
  sum, taken from left to right starting at 0.0, divided by their count. A \<open>double\<close> is
  valid when it is an infinity, NaN, or a rational that binary64 represents; it is finite
  when it is neither an infinity nor NaN.
\<close>

definition float_sum :: "double list \<Rightarrow> double" where
  "float_sum xs = foldl fadd (Finite 0) xs"

definition arithmetic_mean :: "double list \<Rightarrow> double" where
  "arithmetic_mean xs =
     (case float_sum xs of
        Finite a \<Rightarrow> round_double (a / of_nat (length xs))
      | x \<Rightarrow> x)"



section \<open>An example folder\<close>

text \<open>
  A concrete outside world for the closed examples: four folders, one position log with
  a header, the marker line, a comment, a data line, a blank line and a second data line,
  and two manifests, of which \<open>a.json\<close> does not parse and \<open>b.json\<close> holds one
  frame.
\<close>

definition example_lines :: "string list" where
  "example_lines =
     [''% program : example'',
      ''%  GPST          latitude(deg) longitude(deg)'',
      ''% a comment'',
      ''2024/01/01 00:00:00.000   40.5 -74.25  12.0 1'',
      [CHR '' '', CHR 0x09, CHR 0x0A],
      ''2024/01/01 00:00:01.000   41.0 -74.5  11.5 1'']"

definition example_manifest :: manifest where
  "example_manifest =
     \<lparr>timestamps = Some [(0, 1704060000000000000)],
      doc_fields = [''total'' \<mapsto> PyInt 480]\<rparr>"

definition example_world :: world where
  "example_world =
     \<lparr>listdir = (\<lambda>folder.
        if folder = ''first_fails'' then Inr [''a.json'', ''b.json'', ''x.pos'']
        else if folder = ''second_fails'' then Inr [''b.json'', ''x.pos'', ''a.json'', ''c.json'']
        else if folder = ''no_log'' then Inr [''b.json'']
        else if folder = ''complete'' then Inr [''x.pos'', ''b.json'']
        else Inl (FileNotFoundError folder)),
      readlines = (\<lambda>path.
        if suffix ''x.pos'' path then Some example_lines
        else if suffix ''y.pos'' path then Some [''% no marker here'', ''1 2 3 4'']
        else None),
      json_load = (\<lambda>path. if suffix ''b.json'' path then Some example_manifest else None),
      strptime = (\<lambda>s.
        if s = ''2024/01/01 00:00:00.000''
        then Inr \<lparr>epoch_seconds = 1704060000, microsecond = 0\<rparr>
        else if s = ''2024/01/01 00:00:01.000''
        then Inr \<lparr>epoch_seconds = 1704060001, microsecond = 0\<rparr>
        else Inl (ValueError ''time data does not match format'')),
      float_of_str = (\<lambda>s.
        if s = ''40.5'' then Inr (Finite (81 / 2))
        else if s = ''-74.25'' then Inr (Finite (- (297 / 4)))
        else if s = ''41.0'' then Inr (Finite 41)
        else if s = ''-74.5'' then Inr (Finite (- (149 / 2)))
        else Inl (ValueError ''could not convert string to float''))\<rparr>"



section \<open>Nearest sample: global minimum, first minimal element, empty track\<close>

lemma min_from_mem: "min_from key best xs \<in> set (best # xs)"
  by (induction xs arbitrary: best) auto

lemma min_from_le_best: "key (min_from key best xs) \<le> key best"
proof (induction xs arbitrary: best)
  case Nil
  show ?case by simp
next
  case (Cons x xs)
  show ?case
  proof (cases "key x < key best")
    case True
    with Cons [of x] show ?thesis by simp
  next
    case False
    with Cons [of best] show ?thesis by simp
  qed
qed

lemma min_from_le: "y \<in> set xs \<Longrightarrow> key (min_from key best xs) \<le> key y"
proof (induction xs arbitrary: best)
  case Nil
  then show ?case by simp
next
  case (Cons x xs)
  show ?case
  proof (cases "y = x")
    case True
    show ?thesis
    proof (cases "key x < key best")
      case True
      with \<open>y = x\<close> min_from_le_best [of key x xs] show ?thesis by simp
    next
      case False
      with \<open>y = x\<close> min_from_le_best [of key best xs] show ?thesis by simp
    qed
  next
    case False
    with Cons.prems have "y \<in> set xs" by simp
    then show ?thesis using Cons.IH by simp
  qed
qed

lemma min_from_keeps:
  "\<forall>y\<in>set post. key s \<le> key y \<Longrightarrow> min_from key s post = s"
  by (induction post) auto

lemma min_from_first:
  "key s < key best \<Longrightarrow> \<forall>y\<in>set pre. key s < key y \<Longrightarrow> \<forall>y\<in>set post. key s \<le> key y
    \<Longrightarrow> min_from key best (pre @ s # post) = s"
proof (induction pre arbitrary: best)
  case Nil
  then show ?case by (simp add: min_from_keeps)
next
  case (Cons p pre)
  then show ?case by simp
qed

lemma py_min_first:
  assumes "\<forall>y\<in>set pre. key s < key y" and "\<forall>y\<in>set post. key s \<le> key y"
  shows "py_min (pre @ s # post) key = Inr s"
proof (cases pre)
  case Nil
  with assms show ?thesis by (simp add: py_min_def min_from_keeps)
next
  case (Cons p pre')
  with assms show ?thesis by (simp add: py_min_def min_from_first)
qed

text \<open>
  C1. On a track that is not empty, \<open>find_closest_timestamp\<close> returns the coordinates of
  a sample of the track whose distance in time to the target is at most the distance of
  every sample of the track.
\<close>

theorem find_closest_timestamp_global_minimum:
  assumes "pos_data \<noteq> []"
  shows "\<exists>s\<in>set pos_data.
           find_closest_timestamp (Some pos_data) target = Inr (fst (snd s), snd (snd s)) \<and>
           (\<forall>s'\<in>set pos_data. \<bar>fst s - target\<bar> \<le> \<bar>fst s' - target\<bar>)"
proof -
  from assms obtain x rest where xs: "pos_data = x # rest" by (cases pos_data) auto
  let ?key = "\<lambda>x :: sample. \<bar>fst x - target\<bar>"
  let ?m = "min_from ?key x rest"
  have "?m \<in> set pos_data" unfolding xs by (rule min_from_mem)
  moreover have "find_closest_timestamp (Some pos_data) target = Inr (fst (snd ?m), snd (snd ?m))"
    by (simp add: find_closest_timestamp_def py_min_def xs)
  moreover have "\<forall>s'\<in>set pos_data. ?key ?m \<le> ?key s'"
    unfolding xs using min_from_le [of _ rest ?key x] min_from_le_best [of ?key x rest] by auto
  ultimately show ?thesis by blast
qed

theorem find_closest_timestamp_global_minimum_witness:
  "[(0, Finite 1, Finite 2), (10, Finite 3, Finite 4)] \<noteq> ([] :: sample list) \<and>
   (\<exists>s\<in>set [(0, Finite 1, Finite 2), (10, Finite 3, Finite 4)].
      find_closest_timestamp (Some [(0, Finite 1, Finite 2), (10, Finite 3, Finite 4)]) 7
        = Inr (fst (snd s), snd (snd s)) \<and>
      (\<forall>s'\<in>set [(0 :: int, Finite 1, Finite 2), (10, Finite 3, Finite 4)].
         \<bar>fst s - 7\<bar> \<le> \<bar>fst s' - 7\<bar>))"
  using find_closest_timestamp_global_minimum
    [of "[(0, Finite 1, Finite 2), (10, Finite 3, Finite 4)]" 7]
  by simp

text \<open>
  C3. On an empty track \<open>find_closest_timestamp\<close> raises: the ValueError of the built-in
  \<open>min\<close> on an empty sequence is the spec's EmptyTrackError. No coordinate is returned,
  and associating a manifest that has a frame raises the same error.
\<close>

theorem find_closest_timestamp_empty_track:
  "find_closest_timestamp (Some []) target
     = Inl (ValueError ''min() arg is an empty sequence'') \<and>
   associate_timestamps_with_gps
       (Some \<lparr>timestamps = Some (frame # frames), doc_fields = other\<rparr>) (Some [])
     = Inl (ValueError ''min() arg is an empty sequence'')"
  by (simp add: find_closest_timestamp_def py_min_def associate_timestamps_with_gps_def)

text \<open>
  C5. The sample returned is the first one of the track at minimal distance: when every
  sample before \<open>s\<close> is strictly farther from the target than \<open>s\<close> and no sample after
  \<open>s\<close> is nearer, the coordinates of \<open>s\<close> are returned. Of two samples at the same
  minimal distance, the earlier one wins.
\<close>

theorem find_closest_timestamp_first_minimal:
  assumes "\<forall>y\<in>set pre. \<bar>fst s - target\<bar> < \<bar>fst y - target\<bar>"
    and "\<forall>y\<in>set post. \<bar>fst s - target\<bar> \<le> \<bar>fst y - target\<bar>"
  shows "find_closest_timestamp (Some (pre @ s # post)) target = Inr (fst (snd s), snd (snd s))"
  using py_min_first [of pre "\<lambda>x. \<bar>fst x - target\<bar>" s post] assms
  by (simp add: find_closest_timestamp_def)

theorem find_closest_timestamp_first_minimal_witness:
  "find_closest_timestamp
     (Some [(100, Finite 5, Finite 6), (0, Finite 1, Finite 2), (60, Finite 3, Finite 4)]) 30
     = Inr (Finite 1, Finite 2)"
  using find_closest_timestamp_first_minimal
    [of "[(100, Finite 5, Finite 6)]" "(0, Finite 1, Finite 2)" 30 "[(60, Finite 3, Finite 4)]"]
  by simp

section \<open>Associations: one per frame, in manifest order\<close>

lemma find_closest_timestamp_returns:
  "pos_data \<noteq> [] \<Longrightarrow> \<exists>la lo. find_closest_timestamp (Some pos_data) t = Inr (la, lo)"
  by (cases pos_data) (simp_all add: find_closest_timestamp_def py_min_def)

lemma associate_loop_appends:
  assumes "pos_data \<noteq> []"
  shows "\<exists>new. associate_loop (Some pos_data) acc frames = Inr (acc @ new) \<and>
           list_all2 (\<lambda>frame a. \<exists>la lo. a = association (fst frame) (snd frame) la lo) frames new"
proof (induction frames arbitrary: acc)
  case Nil
  show ?case by simp
next
  case (Cons frame frames)
  from assms obtain la lo
    where closest: "find_closest_timestamp (Some pos_data) (snd frame) = Inr (la, lo)"
    using find_closest_timestamp_returns by blast
  let ?a = "association (fst frame) (snd frame) la lo"
  from Cons [of "acc @ [?a]"] obtain new
    where new: "associate_loop (Some pos_data) (acc @ [?a]) frames = Inr ((acc @ [?a]) @ new)"
      and all: "list_all2 (\<lambda>frame a. \<exists>la lo. a = association (fst frame) (snd frame) la lo) frames new"
    by blast
  have "associate_loop (Some pos_data) acc (frame # frames) = Inr (acc @ (?a # new))"
    using closest new by simp
  moreover have "list_all2 (\<lambda>frame a. \<exists>la lo. a = association (fst frame) (snd frame) la lo)
      (frame # frames) (?a # new)"
    using all by auto
  ultimately show ?case by blast
qed

text \<open>
  C8. For a manifest with a \<open>timestamps\<close> list and a track that is not empty,
  \<open>associate_timestamps_with_gps\<close> returns a list that pairs off with the frames: the
  same length, the same order, and the k-th association carries the k-th frame's index
  and timestamp.
\<close>

theorem associate_timestamps_with_gps_one_per_frame:
  assumes "pos_data \<noteq> []"
  shows "\<exists>associations.
           associate_timestamps_with_gps
               (Some \<lparr>timestamps = Some frames, doc_fields = other\<rparr>) (Some pos_data)
             = Inr associations \<and>
           list_all2 (\<lambda>frame a. getitem a ''index'' = Inr (PyInt (fst frame)) \<and>
                                 getitem a ''timestamp'' = Inr (PyInt (snd frame)))
             frames associations"
proof -
  from associate_loop_appends [OF assms, of "[]" frames] obtain new
    where new: "associate_loop (Some pos_data) [] frames = Inr new"
      and all: "list_all2 (\<lambda>frame a. \<exists>la lo. a = association (fst frame) (snd frame) la lo) frames new"
    by auto
  have "list_all2 (\<lambda>frame a. getitem a ''index'' = Inr (PyInt (fst frame)) \<and>
                                 getitem a ''timestamp'' = Inr (PyInt (snd frame))) frames new"
    using all by (rule list_all2_mono) (auto simp: association_def getitem_def)
  with new show ?thesis by (simp add: associate_timestamps_with_gps_def)
qed

theorem associate_timestamps_with_gps_one_per_frame_witness:
  "[(0, Finite 1, Finite 2), (60, Finite 3, Finite 4)] \<noteq> ([] :: sample list) \<and>
   (\<exists>associations.
      associate_timestamps_with_gps
          (Some \<lparr>timestamps = Some [(0, 50), (1, 10)], doc_fields = Map.empty\<rparr>)
          (Some [(0, Finite 1, Finite 2), (60, Finite 3, Finite 4)])
        = Inr associations \<and>
      list_all2 (\<lambda>frame a. getitem a ''index'' = Inr (PyInt (fst frame)) \<and>
                            getitem a ''timestamp'' = Inr (PyInt (snd frame)))
        [(0, 50), (1, 10)] associations)"
  using associate_timestamps_with_gps_one_per_frame
    [of "[(0, Finite 1, Finite 2), (60, Finite 3, Finite 4)]" "[(0, 50), (1, 10)]" Map.empty]
  by simp

section \<open>The shape of the GeoJSON document\<close>

lemma feature_association:
  "feature (association i t la lo) =
     Inr (PyDict
       [(''type'', PyStr ''Feature''),
        (''geometry'', PyDict
           [(''type'', PyStr ''Point''),
            (''coordinates'', PyList [PyFloat lo, PyFloat la])]),
        (''properties'', PyDict
           [(''index'', PyInt i),
            (''timestamp'', PyInt t)])])"
  by (simp add: feature_def association_def getitem_def bind_err_def)

text \<open>
  C7. For every manifest, every list of associations (each built from an index, a
  timestamp, a latitude and a longitude) and every centroid, the document is the
  FeatureCollection below: the five metadata fields taken from the manifest or defaulted
  to the empty string (0 for \<open>total\<close>), the centroid under \<open>lat\<close> and \<open>lon\<close>, and one
  Point feature per association in order, its coordinates longitude first and its
  properties the index and the timestamp alone.
\<close>

theorem generate_geojson_output_shape:
  "generate_geojson_output (Some m)
       (map (\<lambda>(i, t, la, lo). association i t la lo) assocs) (clat, clon) =
     Inr (PyDict
       [(''type'', PyStr ''FeatureCollection''),
        (''filename'', case doc_fields m ''filename'' of None \<Rightarrow> PyStr [] | Some v \<Rightarrow> v),
        (''device_alias'', case doc_fields m ''device_alias'' of None \<Rightarrow> PyStr [] | Some v \<Rightarrow> v),
        (''total'', case doc_fields m ''total'' of None \<Rightarrow> PyInt 0 | Some v \<Rightarrow> v),
        (''beginning'', case doc_fields m ''beginning'' of None \<Rightarrow> PyStr [] | Some v \<Rightarrow> v),
        (''end'', case doc_fields m ''end'' of None \<Rightarrow> PyStr [] | Some v \<Rightarrow> v),
        (''centroid'', PyDict [(''lat'', PyFloat clat), (''lon'', PyFloat clon)]),
        (''features'', PyList
           (map (\<lambda>(i, t, la, lo).
                  PyDict
                    [(''type'', PyStr ''Feature''),
                     (''geometry'', PyDict
                        [(''type'', PyStr ''Point''),
                         (''coordinates'', PyList [PyFloat lo, PyFloat la])]),
                     (''properties'', PyDict
                        [(''index'', PyInt i),
                         (''timestamp'', PyInt t)])])
              assocs))])"
proof -
  have "map_err feature (map (\<lambda>(i, t, la, lo). association i t la lo) assocs) =
      Inr (map (\<lambda>(i, t, la, lo).
                  PyDict
                    [(''type'', PyStr ''Feature''),
                     (''geometry'', PyDict
                        [(''type'', PyStr ''Point''),
                         (''coordinates'', PyList [PyFloat lo, PyFloat la])]),
                     (''properties'', PyDict
                        [(''index'', PyInt i),
                         (''timestamp'', PyInt t)])]) assocs)"
    by (induction assocs) (auto simp: feature_association)
  then show ?thesis
    by (simp add: generate_geojson_output_def bind_err_def get_default_def)
qed

section \<open>Evaluating and bounding float operations\<close>

lemma floor_rat_numeral: "\<lfloor>(numeral a :: rat) / numeral b\<rfloor> = numeral a div numeral b"
  using floor_divide_of_int_eq [of "numeral a" "numeral b", where ?'a = rat] by simp

lemma ceiling_rat_numeral: "\<lceil>(numeral a :: rat) / numeral b\<rceil> = - ((- numeral a) div numeral b)"
  using floor_divide_of_int_eq [of "- numeral a" "numeral b", where ?'a = rat]
  by (simp add: ceiling_def)

lemmas float_eval = round_double_def binade_def pow2_def round_half_even_def compute_bitlen
  Let_def floor_rat_numeral ceiling_rat_numeral float_of_int_def bind_err_def

lemma round_half_even_of_int: "round_half_even (of_int z) = z"
  by (simp add: round_half_even_def)

lemma round_double_int:
  assumes "0 < n" and "n < 2 ^ 53"
  shows "round_double (of_int n) = Finite (of_int n)"
proof -
  let ?k = "bitlen n"
  from assms have k1: "1 \<le> ?k" by (simp add: bitlen_ge_iff_power)
  from assms have k53: "?k \<le> 53" by (simp add: bitlen_le_iff_power)
  have binade: "binade \<bar>of_int n\<bar> = ?k"
    using assms by (simp add: binade_def)
  have e: "max (?k - 53) (- 1074) = ?k - 53" using k1 by simp
  have p: "pow2 (?k - 53) = 1 / 2 ^ nat (53 - ?k)"
    using k53 by (cases "?k = 53") (simp_all add: pow2_def)
  have scaled: "(of_int n :: rat) / pow2 (?k - 53) = of_int (n * 2 ^ nat (53 - ?k))"
    by (simp add: p)
  have r: "of_int (round_half_even ((of_int n :: rat) / pow2 (?k - 53))) * pow2 (?k - 53) = of_int n"
    unfolding scaled round_half_even_of_int by (simp add: p)
  have small: "(of_int n :: rat) < 2 ^ 1024"
  proof -
    have "(of_int n :: rat) < of_int (2 ^ 53)" using assms by (simp only: of_int_less_iff)
    also have "\<dots> < 2 ^ 1024" by simp
    finally show ?thesis .
  qed
  have pos: "(0 :: rat) < of_int n" using assms by simp
  show ?thesis
    unfolding round_double_def Let_def binade e r
    using small pos by simp
qed

lemma float_of_int_small:
  "0 < n \<Longrightarrow> n < 2 ^ 53 \<Longrightarrow> float_of_int n = Inr (Finite (of_int n))"
  by (simp add: float_of_int_def round_double_int)

lemma float_of_int_zero: "float_of_int 0 = Inr (Finite 0)"
  by (simp add: float_of_int_def round_double_def)

section \<open>The timestamp conversion counts the microseconds twice\<close>

text \<open>
  C2. The contract is \<open>floor(seconds) * 1e9 + microsecond * 1000\<close>. The code multiplies
  \<open>dt.timestamp()\<close>, which already holds the microseconds as its fraction, and then adds
  them again: for 1704060000 whole seconds and 217313 microseconds it returns
  1704060000434626024, not 1704060000217313000.
\<close>

theorem date_str_to_timestamp_counts_microseconds_twice:
  "date_str_to_timestamp \<lparr>epoch_seconds = 1704060000, microsecond = 217313\<rparr>
     = Inr 1704060000434626024 \<and>
   (1704060000434626024 :: int) \<noteq> 1704060000 * 1000000000 + 217313 * 1000"
  by (simp add: date_str_to_timestamp_def timestamp_def float_eval)

section \<open>The centroid: errors and mean\<close>

lemma map_err_getitem:
  "list_all2 (\<lambda>loc x. map_of loc k = Some (PyFloat x)) locations xs
    \<Longrightarrow> map_err (\<lambda>loc. getitem loc k) locations = Inr (map PyFloat xs)"
  by (induction rule: list_all2_induct) (simp_all add: getitem_def)

lemma has_key_all:
  "list_all2 (\<lambda>loc x. map_of loc k = Some (PyFloat x)) locations xs
    \<Longrightarrow> list_all (\<lambda>loc. has_key loc k) locations"
  by (induction rule: list_all2_induct) (simp_all add: has_key_def)

lemma sum_from_floats:
  "sum_from (PyFloat acc) (map PyFloat xs) = Inr (PyFloat (foldl fadd acc xs))"
  by (induction xs arbitrary: acc) (simp_all add: py_add_def)

lemma py_sum_floats:
  "xs \<noteq> [] \<Longrightarrow> py_sum (map PyFloat xs) = Inr (PyFloat (float_sum xs))"
  by (cases xs)
    (simp_all add: py_sum_def float_sum_def py_add_def float_of_int_zero bind_err_def sum_from_floats)

lemma py_truediv_count:
  assumes "0 < n" and "n < 2 ^ 53"
  shows "py_truediv (PyFloat s) (PyInt n)
     = Inr (case s of Finite a \<Rightarrow> round_double (a / of_int n) | x \<Rightarrow> x)"
  using assms
  by (cases s) (simp_all add: py_truediv_def float_of_int_small bind_err_def)

lemma calculate_centroid_floats:
  assumes "locations \<noteq> []" and "length locations < 2 ^ 53"
    and lat: "list_all2 (\<lambda>loc la. map_of loc ''latitude'' = Some (PyFloat la)) locations lats"
    and lon: "list_all2 (\<lambda>loc lo. map_of loc ''longitude'' = Some (PyFloat lo)) locations lons"
  shows "calculate_centroid locations = Inr (arithmetic_mean lats, arithmetic_mean lons)"
proof -
  have keys: "list_all (\<lambda>loc. has_key loc ''latitude'' \<and> has_key loc ''longitude'') locations"
    using has_key_all [OF lat] has_key_all [OF lon] by (simp add: list_all_iff)
  have len: "length lats = length locations" "length lons = length locations"
    using list_all2_lengthD [OF lat] list_all2_lengthD [OF lon] by simp_all
  with assms have ne: "lats \<noteq> []" "lons \<noteq> []" by auto
  have n: "0 < int (length locations)" "int (length locations) < 2 ^ 53"
    using assms by simp_all
  have mlat: "bind_err (py_sum (map PyFloat lats))
        (\<lambda>total. py_truediv total (PyInt (int (length (map PyFloat lats)))))
      = Inr (arithmetic_mean lats)"
    using n
    by (simp add: py_sum_floats ne bind_err_def py_truediv_count arithmetic_mean_def len
          split: double.splits)
  have mlon: "bind_err (py_sum (map PyFloat lons))
        (\<lambda>total. py_truediv total (PyInt (int (length (map PyFloat lons)))))
      = Inr (arithmetic_mean lons)"
    using n
    by (simp add: py_sum_floats ne bind_err_def py_truediv_count arithmetic_mean_def len
          split: double.splits)
  show ?thesis
    unfolding calculate_centroid_def map_err_getitem [OF lat] map_err_getitem [OF lon]
    using assms(1) keys ne mlat mlon
    by (simp add: bind_err_def)
qed

text \<open>
  C6. \<open>calculate_centroid\<close> raises ValueError with the message of the empty input on zero
  records (the spec's EmptyInputError); it raises ValueError with the message of the
  missing keys when some record lacks a coordinate key (the spec's SchemaError); and on
  records whose latitudes are the floats \<open>lats\<close> and whose longitudes are the floats
  \<open>lons\<close> it returns the arithmetic mean of \<open>lats\<close> and the arithmetic mean of
  \<open>lons\<close>, each computed from its own list. (A list has fewer than \<open>2 ^ 53\<close> elements,
  so that its length is a float.)
\<close>

theorem calculate_centroid_cases:
  "calculate_centroid [] = Inl (ValueError ''The list of locations is empty'') \<and>
   ((\<exists>loc\<in>set locations. \<not> has_key loc ''latitude'' \<or> \<not> has_key loc ''longitude'')
      \<longrightarrow> calculate_centroid locations
            = Inl (ValueError ''Each location must have 'latitude' and 'longitude' keys'')) \<and>
   (locations \<noteq> [] \<and> length locations < 2 ^ 53 \<and>
    list_all2 (\<lambda>loc la. map_of loc ''latitude'' = Some (PyFloat la)) locations lats \<and>
    list_all2 (\<lambda>loc lo. map_of loc ''longitude'' = Some (PyFloat lo)) locations lons
      \<longrightarrow> calculate_centroid locations = Inr (arithmetic_mean lats, arithmetic_mean lons))"
proof (intro conjI impI)
  show "calculate_centroid [] = Inl (ValueError ''The list of locations is empty'')"
    by (simp add: calculate_centroid_def)
next
  assume "\<exists>loc\<in>set locations. \<not> has_key loc ''latitude'' \<or> \<not> has_key loc ''longitude''"
  then have "locations \<noteq> []"
    and "\<not> list_all (\<lambda>loc. has_key loc ''latitude'' \<and> has_key loc ''longitude'') locations"
    by (auto simp: list_all_iff)
  then show "calculate_centroid locations
      = Inl (ValueError ''Each location must have 'latitude' and 'longitude' keys'')"
    by (simp add: calculate_centroid_def)
next
  assume "locations \<noteq> [] \<and> length locations < 2 ^ 53 \<and>
    list_all2 (\<lambda>loc la. map_of loc ''latitude'' = Some (PyFloat la)) locations lats \<and>
    list_all2 (\<lambda>loc lo. map_of loc ''longitude'' = Some (PyFloat lo)) locations lons"
  then show "calculate_centroid locations = Inr (arithmetic_mean lats, arithmetic_mean lons)"
    using calculate_centroid_floats by blast
qed

theorem calculate_centroid_cases_witness:
  "calculate_centroid [[(''latitude'', PyFloat (Finite 1))]]
     = Inl (ValueError ''Each location must have 'latitude' and 'longitude' keys'') \<and>
   calculate_centroid
       [[(''latitude'', PyFloat (Finite 1)), (''longitude'', PyFloat (Finite 10))],
        [(''latitude'', PyFloat (Finite 3)), (''longitude'', PyFloat (Finite 20))]]
     = Inr (arithmetic_mean [Finite 1, Finite 3], arithmetic_mean [Finite 10, Finite 20])"
  using calculate_centroid_cases [of "[[(''latitude'', PyFloat (Finite 1))]]" "[]" "[]"]
    calculate_centroid_cases
      [of "[[(''latitude'', PyFloat (Finite 1)), (''longitude'', PyFloat (Finite 10))],
            [(''latitude'', PyFloat (Finite 3)), (''longitude'', PyFloat (Finite 20))]]"
          "[Finite 1, Finite 3]" "[Finite 10, Finite 20]"]
  by (simp add: has_key_def)


section \<open>The centroid of repeated points and of reordered records\<close>





subsection \<open>Doubling a float\<close>
















subsection \<open>Floats near the overflow threshold\<close>





subsection \<open>Three records, and one or two\<close>




section \<open>The position track: marker, skipped lines, samples in order\<close>

lemma data_start_index_none:
  "\<forall>l\<in>set lines. \<not> prefix ''%  GPST'' l \<Longrightarrow> data_start_index lines = None"
  by (induction lines) simp_all

lemma data_start_index_some:
  "\<forall>l\<in>set before. \<not> prefix ''%  GPST'' l \<Longrightarrow> prefix ''%  GPST'' marker
    \<Longrightarrow> data_start_index (before @ marker # data) = Some (Suc (length before))"
  by (induction before) simp_all

lemma py_strip_empty: "py_strip l = [] \<longleftrightarrow> list_all py_isspace l"
proof
  assume "py_strip l = []"
  then have all: "\<forall>x\<in>set (dropWhile py_isspace l). py_isspace x"
    by (simp add: py_strip_def dropWhile_eq_Nil_conv)
  have "dropWhile py_isspace l = []"
  proof (rule ccontr)
    assume ne: "dropWhile py_isspace l \<noteq> []"
    then have "\<not> py_isspace (hd (dropWhile py_isspace l))" by (rule hd_dropWhile)
    moreover from ne have "hd (dropWhile py_isspace l) \<in> set (dropWhile py_isspace l)" by simp
    ultimately show False using all by blast
  qed
  then show "list_all py_isspace l" by (simp add: dropWhile_eq_Nil_conv list_all_iff)
next
  assume "list_all py_isspace l"
  then show "py_strip l = []"
    by (auto simp: py_strip_def list_all_iff dest: set_dropWhileD)
qed

lemma skipped_iff: "skipped l \<longleftrightarrow> prefix ''%'' l \<or> list_all py_isspace l"
  by (simp add: skipped_def py_strip_empty)

lemma pos_loop_iff:
  "pos_loop w acc lines = Inr track \<longleftrightarrow>
     (\<exists>new. track = acc @ new \<and>
        list_all2 (\<lambda>line s. parse_line w line = Inr s) (filter (\<lambda>l. \<not> skipped l) lines) new)"
proof (induction lines arbitrary: acc)
  case Nil
  show ?case by auto
next
  case (Cons line lines)
  show ?case
  proof (cases "skipped line")
    case True
    then show ?thesis using Cons [of acc] by simp
  next
    case False
    show ?thesis
    proof (cases "parse_line w line")
      case (Inl e)
      with False show ?thesis by (simp add: list_all2_Cons1)
    next
      case (Inr s)
      have "(\<exists>new. track = acc @ new \<and>
               list_all2 (\<lambda>line s. parse_line w line = Inr s)
                 (line # filter (\<lambda>l. \<not> skipped l) lines) new) \<longleftrightarrow>
            (\<exists>new'. track = (acc @ [s]) @ new' \<and>
               list_all2 (\<lambda>line s. parse_line w line = Inr s)
                 (filter (\<lambda>l. \<not> skipped l) lines) new')"
        using Inr by (fastforce simp: list_all2_Cons1)
      with False Inr show ?thesis
        using Cons [of "acc @ [s]"] by simp
    qed
  qed
qed

lemma parse_line_iff:
  "parse_line w line = Inr (ts, latitude, longitude) \<longleftrightarrow>
     4 \<le> length (py_split line) \<and>
     bind_err (strptime w (py_split line ! 0 @ '' '' @ py_split line ! 1)) date_str_to_timestamp
       = Inr ts \<and>
     float_of_str w (py_split line ! 2) = Inr latitude \<and>
     float_of_str w (py_split line ! 3) = Inr longitude"
  by (auto simp: parse_line_def index_list_def bind_err_def Let_def split: sum.splits)

text \<open>
  C10. When no line of the position log begins with the marker \<open>%  GPST\<close>,
  \<open>parse_pos_file\<close> returns the empty track and raises nothing. When the log has a marker,
  the lines after the first one are the data section: there the lines beginning with
  \<open>%\<close> and the lines holding only whitespace are skipped, and the track returned is
  exactly the list of the samples of the other lines, one per line, in the order of the
  lines. The sample of a line is read from its whitespace-separated fields, of which there
  are at least four: its timestamp is the conversion of the date and time in fields 0 and
  1, its latitude is the float in field 2 and its longitude the float in field 3.
\<close>

theorem parse_pos_file_track:
  assumes "readlines w path = Some lines"
  shows "((\<forall>l\<in>set lines. \<not> prefix ''%  GPST'' l) \<longrightarrow> parse_pos_file w path = Inr (Some [])) \<and>
         (lines = before @ marker # data \<and> (\<forall>l\<in>set before. \<not> prefix ''%  GPST'' l) \<and>
          prefix ''%  GPST'' marker \<longrightarrow>
            (parse_pos_file w path = Inr (Some track) \<longleftrightarrow>
               list_all2
                 (\<lambda>line (ts, latitude, longitude).
                    4 \<le> length (py_split line) \<and>
                    bind_err (strptime w (py_split line ! 0 @ '' '' @ py_split line ! 1))
                        date_str_to_timestamp = Inr ts \<and>
                    float_of_str w (py_split line ! 2) = Inr latitude \<and>
                    float_of_str w (py_split line ! 3) = Inr longitude)
                 (filter (\<lambda>l. \<not> (prefix ''%'' l \<or> list_all py_isspace l)) data) track))"
proof (intro conjI impI)
  assume "\<forall>l\<in>set lines. \<not> prefix ''%  GPST'' l"
  then show "parse_pos_file w path = Inr (Some [])"
    using assms by (simp add: parse_pos_file_def data_start_index_none)
next
  assume a: "lines = before @ marker # data \<and> (\<forall>l\<in>set before. \<not> prefix ''%  GPST'' l) \<and>
          prefix ''%  GPST'' marker"
  then have start: "data_start_index lines = Some (Suc (length before))"
    by (simp add: data_start_index_some)
  from a have data: "drop (Suc (length before)) lines = data" by simp
  have sample: "(\<lambda>line s. parse_line w line = Inr s)
      = (\<lambda>line (ts, latitude, longitude).
           4 \<le> length (py_split line) \<and>
           bind_err (strptime w (py_split line ! 0 @ '' '' @ py_split line ! 1))
               date_str_to_timestamp = Inr ts \<and>
           float_of_str w (py_split line ! 2) = Inr latitude \<and>
           float_of_str w (py_split line ! 3) = Inr longitude)"
    by (intro ext) (simp add: parse_line_iff split: prod.splits)
  have "parse_pos_file w path = Inr (Some track) \<longleftrightarrow> pos_loop w [] data = Inr track"
    using assms by (auto simp: parse_pos_file_def start data split: sum.splits)
  also have "\<dots> \<longleftrightarrow>
      list_all2 (\<lambda>line s. parse_line w line = Inr s) (filter (\<lambda>l. \<not> skipped l) data) track"
    by (simp add: pos_loop_iff)
  finally show "parse_pos_file w path = Inr (Some track) \<longleftrightarrow>
               list_all2
                 (\<lambda>line (ts, latitude, longitude).
                    4 \<le> length (py_split line) \<and>
                    bind_err (strptime w (py_split line ! 0 @ '' '' @ py_split line ! 1))
                        date_str_to_timestamp = Inr ts \<and>
                    float_of_str w (py_split line ! 2) = Inr latitude \<and>
                    float_of_str w (py_split line ! 3) = Inr longitude)
                 (filter (\<lambda>l. \<not> (prefix ''%'' l \<or> list_all py_isspace l)) data) track"
    by (simp add: skipped_iff sample)
qed

theorem parse_pos_file_track_witness:
  "parse_pos_file example_world ''first_fails/y.pos'' = Inr (Some []) \<and>
   parse_pos_file example_world ''first_fails/x.pos''
      = Inr (Some [(1704060000000000000, Finite (81 / 2), Finite (- (297 / 4))),
                   (1704060001000000000, Finite 41, Finite (- (149 / 2)))])"
  using parse_pos_file_track
      [of example_world "''first_fails/y.pos''" "[''% no marker here'', ''1 2 3 4'']"]
    parse_pos_file_track
      [of example_world "''first_fails/x.pos''" example_lines
          "[''% program : example'']" "''%  GPST          latitude(deg) longitude(deg)''"
          "[''% a comment'',
            ''2024/01/01 00:00:00.000   40.5 -74.25  12.0 1'',
            [CHR '' '', CHR 0x09, CHR 0x0A],
            ''2024/01/01 00:00:01.000   41.0 -74.5  11.5 1'']"
          "[(1704060000000000000, Finite (81 / 2), Finite (- (297 / 4))),
            (1704060001000000000, Finite 41, Finite (- (149 / 2)))]"]
  by (simp add: example_world_def example_lines_def suffix_to_prefix py_isspace_def
        py_split_def date_str_to_timestamp_def timestamp_def float_eval)

section \<open>The batch: manifests in listing order, up to the first failure\<close>











end
